theory Spec2Isabelle
  imports Complex_Main
begin

section \<open>The consumer builder of snuba (src/snuba/consumers/consumer_builder.py)\<close>

text \<open>
  The builder merges command-line parameters, dataset defaults and settings into one
  consumer. The model follows the Python module line by line. Objects of other modules
  that the builder only passes around (metrics backend, message processor, pre-filter,
  dead-letter policy creator, statistics callback) are opaque and identified by a name.
  Calls into other modules are recorded, in program order, in a trace that is threaded
  through the builder together with the counter that numbers client handles.
\<close>

subsection \<open>Python values and errors\<close>

type_synonym StorageKey = string
type_synonym StorageSetKey = string
type_synonym MetricsBackend = string
type_synonym MessageProcessor = string
type_synonym StreamMessageFilter = string
type_synonym DlqPolicyCreator = string
type_synonym StatsCallback = string

text \<open>Errors the modelled code raises.\<close>

datatype PyError =
  ConfigurationError | IndexError | AttributeError | OverflowError | ZeroDivisionError

text \<open>
  The error codes of \<^verbatim>\<open>confluent_kafka.KafkaError\<close> the builder names, and every
  other code by its number.
\<close>

datatype KafkaErrorCode = REQUEST_TIMED_OUT | NOT_COORDINATOR | WAIT_COORD | OTHER_CODE int

text \<open>
  What an exception can carry in \<^verbatim>\<open>args\<close>: a \<^verbatim>\<open>KafkaError\<close> (the only value here
  with a \<^verbatim>\<open>code()\<close> method), a string, an integer or \<^verbatim>\<open>None\<close>.
\<close>

datatype PyObj = KafkaError KafkaErrorCode | PyStr string | PyInt int | PyNone

text \<open>
  An exception is a \<^verbatim>\<open>KafkaException\<close> (or a subclass of it) or an exception of another
  class, given by the class name; both carry their \<^verbatim>\<open>args\<close>.
\<close>

datatype PyException = KafkaException "PyObj list" | OtherException string "PyObj list"

text \<open>
  The expression \<^verbatim>\<open>n / d\<close> of an integer \<^verbatim>\<open>n\<close> and a float constant \<^verbatim>\<open>d\<close>
  that holds an integer, as \<^verbatim>\<open>1000.0\<close> does. The pipeline description keeps the
  expression; \<open>float_value\<close> below is what Python computes for it.
\<close>

datatype PyFloat = TrueDiv int int

subsection \<open>Python floats\<close>

text \<open>
  A finite float is an IEEE-754 double and is given here by its exact value, a rational.
  \<open>bit_length\<close> is \<^verbatim>\<open>int.bit_length\<close> on positive integers.
\<close>

function bit_length :: "int \<Rightarrow> int" where
  "bit_length n = (if n \<le> 0 then 0 else 1 + bit_length (n div 2))"
  by pat_completeness auto
termination
  by (relation "measure nat") auto

declare bit_length.simps [simp del]

definition pow2 :: "int \<Rightarrow> rat" where
  "pow2 k = (if 0 \<le> k then 2 ^ nat k else 1 / 2 ^ nat (- k))"

text \<open>For positive \<open>x\<close>, the exponent \<open>e\<close> with \<open>2\<^sup>e \<le> x < 2\<^sup>e\<^sup>+\<^sup>1\<close>.\<close>

definition ilog2 :: "rat \<Rightarrow> int" where
  "ilog2 x =
     (if 1 \<le> x then bit_length \<lfloor>x\<rfloor> - 1
      else - bit_length (\<lceil>1 / x\<rceil> - 1))"

text \<open>Rounding to the nearest integer, a tie to the even one.\<close>

definition round_half_even :: "rat \<Rightarrow> int" where
  "round_half_even x =
     (let f = \<lfloor>x\<rfloor>; r = x - of_int f
      in if r < 1 / 2 then f else if 1 / 2 < r then f + 1 else if even f then f else f + 1)"

text \<open>
  The spacing of the doubles around \<open>x\<close>: 53 significant bits, and the spacing of the
  subnormal numbers below \<open>2\<^sup>-\<^sup>1\<^sup>0\<^sup>2\<^sup>2\<close>.
\<close>

definition double_quantum :: "rat \<Rightarrow> rat" where
  "double_quantum x = pow2 (max (ilog2 \<bar>x\<bar>) (- 1022) - 52)"

text \<open>The double nearest to \<open>x\<close>, a tie to the even significand.\<close>

definition round_double :: "rat \<Rightarrow> rat" where
  "round_double x =
     (if x = 0 then 0 else of_int (round_half_even (x / double_quantum x)) * double_quantum x)"

text \<open>
  The conversion of an integer to a float rounds to the nearest double and raises
  OverflowError (\<^verbatim>\<open>int too large to convert to float\<close>) when the rounded value would
  reach \<open>2\<^sup>1\<^sup>0\<^sup>2\<^sup>4\<close>; the first such integer is \<open>2\<^sup>1\<^sup>0\<^sup>2\<^sup>4 - 2\<^sup>9\<^sup>7\<^sup>0\<close>.
\<close>

definition float_overflow_threshold :: int where
  "float_overflow_threshold = 2 ^ 1024 - 2 ^ 970"

definition float_of_int :: "int \<Rightarrow> PyError + rat" where
  "float_of_int n =
     (if float_overflow_threshold \<le> \<bar>n\<bar> then Inl OverflowError
      else Inr (round_double (of_int n)))"

text \<open>
  \<^verbatim>\<open>n / d\<close>: the integer is converted to a float, then the two floats are divided and
  the quotient is rounded. A quotient by an integer-valued \<open>d\<close> is not larger than the
  dividend, so the division itself cannot overflow.
\<close>

definition float_value :: "PyFloat \<Rightarrow> PyError + rat" where
  "float_value f =
     (case f of
        TrueDiv n d \<Rightarrow>
          (case float_of_int n of
             Inl err \<Rightarrow> Inl err
           | Inr x \<Rightarrow>
               if d = 0 then Inl ZeroDivisionError else Inr (round_double (x / of_int d))))"

datatype ConfigValue = StrV string | IntV int | BoolV bool | NoneV | CallbackV StatsCallback

type_synonym BrokerConfig = "string \<rightharpoonup> ConfigValue"

subsection \<open>Classes of other modules\<close>

text \<open>\<^verbatim>\<open>arroyo.Topic\<close>: a dataclass with the single field \<^verbatim>\<open>name\<close>.\<close>

datatype Topic = Topic (name: string)

text \<open>
  \<^verbatim>\<open>KafkaTopicSpec\<close>: the logical topic and the method that gives its physical name for
  a slice (\<^verbatim>\<open>None\<close>: the unsliced name). The method is not in the sources and is a
  field here.
\<close>

record KafkaTopicSpec =
  topic :: string
  get_physical_topic_name :: "int option \<Rightarrow> string"

record KafkaStreamLoader =
  get_processor :: MessageProcessor
  get_default_topic_spec :: KafkaTopicSpec
  get_pre_filter :: "StreamMessageFilter option"
  get_replacement_topic_spec :: "KafkaTopicSpec option"
  get_commit_log_topic_spec :: "KafkaTopicSpec option"
  get_dead_letter_queue_policy_creator :: "DlqPolicyCreator option"

record TableWriter =
  writer_name :: string
  get_stream_loader :: KafkaStreamLoader

record WritableStorage =
  get_storage_set_key :: StorageSetKey
  get_table_writer :: TableWriter

text \<open>
  \<^verbatim>\<open>arroyo.utils.retries\<close>: \<^verbatim>\<open>BasicRetryPolicy(attempts, delay, test_function)\<close>, or
  any other policy a caller brings, given by a name. The test function may itself raise.
\<close>

datatype RetryPolicy =
  BasicRetryPolicy (attempts: int) (delay: int) (test_function: "PyException \<Rightarrow> PyError + bool")
| OtherRetryPolicy string

text \<open>A \<^verbatim>\<open>confluent_kafka.Producer\<close>: the handle it was allocated under and its configuration.\<close>

datatype Producer = Producer (producer_handle: nat) (producer_config: BrokerConfig)

datatype CommitLogConfig =
  CommitLogConfig (clc_producer: Producer) (clc_topic: Topic) (clc_group_id: string)

subsection \<open>The environment: settings and functions of other modules\<close>

record Env =
  get_writable_storage :: "StorageKey \<Rightarrow> WritableStorage"
  slice_is_valid :: "StorageSetKey \<Rightarrow> int \<Rightarrow> bool"
  get_default_kafka_configuration ::
    "string \<Rightarrow> int option \<Rightarrow> string list option \<Rightarrow> BrokerConfig"
  build_kafka_consumer_configuration ::
    "string \<Rightarrow> string list option \<Rightarrow> string \<Rightarrow> int option \<Rightarrow> string \<Rightarrow> bool option
      \<Rightarrow> int \<Rightarrow> int \<Rightarrow> BrokerConfig"
  runtime_config :: "string \<rightharpoonup> int"

text \<open>
  Modelled from the spec: \<^verbatim>\<open>snuba.datasets.slicing.validate_passed_slice\<close> is not in
  the sources. The spec: the slice id, if present, must be valid for the dataset's
  declared storage set, and the check fails with ConfigurationError otherwise.
\<close>

definition validate_passed_slice :: "Env \<Rightarrow> StorageSetKey \<Rightarrow> int option \<Rightarrow> PyError + unit" where
  "validate_passed_slice env storage_set slice_id =
     (case slice_id of
        None \<Rightarrow> Inr ()
      | Some s \<Rightarrow> if slice_is_valid env storage_set s then Inr () else Inl ConfigurationError)"

text \<open>
  Modelled from the spec: \<^verbatim>\<open>build_kafka_producer_configuration\<close> is not in the sources.
  The spec: the producer configuration is built from bootstrap servers, slice id and
  fixed overrides, and the overrides win over any other value of their keys. The
  configuration before the overrides is the default one of the environment.
\<close>

definition build_kafka_producer_configuration ::
  "Env \<Rightarrow> string \<Rightarrow> int option \<Rightarrow> string list option \<Rightarrow> BrokerConfig \<Rightarrow> BrokerConfig" where
  "build_kafka_producer_configuration env tp slice_id bootstrap_servers override_params =
     get_default_kafka_configuration env tp slice_id bootstrap_servers ++ override_params"

text \<open>
  Modelled from the spec: \<^verbatim>\<open>snuba.state.get_config\<close> is not in the sources. The spec:
  a setting read from the process-wide dynamic configuration store, falling back to the
  default given. The settings read here are intervals in milliseconds, so integers.
\<close>

definition get_config :: "Env \<Rightarrow> string \<Rightarrow> int \<Rightarrow> int" where
  "get_config env key dflt = (case runtime_config env key of None \<Rightarrow> dflt | Some v \<Rightarrow> v)"

subsection \<open>The trace of calls and the handle counter\<close>

datatype Call =
  Call_get_writable_storage StorageKey
| Call_validate_passed_slice StorageSetKey "int option"
| Call_get_default_kafka_configuration string "int option"
| Call_logger_info ConfigValue
| Call_build_kafka_producer_configuration string "int option"
| Call_get_physical_topic_name string "int option"
| Call_Producer nat
| Call_build_kafka_consumer_configuration string "int option"
| Call_get_config string
| Call_KafkaConsumer nat

record World =
  calls :: "Call list"
  next_handle :: nat

definition call :: "Call \<Rightarrow> World \<Rightarrow> World" where
  "call c w = w\<lparr>calls := calls w @ [c]\<rparr>"

definition new_Producer :: "BrokerConfig \<Rightarrow> World \<Rightarrow> Producer \<times> World" where
  "new_Producer config w =
     (Producer (next_handle w) config,
      w\<lparr>calls := calls w @ [Call_Producer (next_handle w)], next_handle := Suc (next_handle w)\<rparr>)"

subsection \<open>The parameter classes\<close>

record KafkaParameters =
  raw_topic :: "string option"
  replacements_topic :: "string option"
  bootstrap_servers :: "string list option"
  group_id :: string
  commit_log_topic :: "string option"
  auto_offset_reset :: string
  strict_offset_reset :: "bool option"
  queued_max_messages_kbytes :: int
  queued_min_messages :: int

record ProcessingParameters =
  processes :: "int option"
  input_block_size :: "int option"
  output_block_size :: "int option"

subsection \<open>The builder\<close>

text \<open>
  The attributes of a \<^verbatim>\<open>ConsumerBuilder\<close>; \<^verbatim>\<open>self.x\<close> is the field \<open>self_x\<close>.
\<close>

record ConsumerBuilder =
  self_storage :: WritableStorage
  self_bootstrap_servers :: "string list option"
  self_consumer_group :: string
  self_broker_config :: BrokerConfig
  self_producer_broker_config :: BrokerConfig
  self_raw_topic :: Topic
  self_replacements_topic :: "Topic option"
  self_commit_log_topic :: "Topic option"
  self_stats_callback :: "StatsCallback option"
  self_producer :: Producer
  self_metrics :: MetricsBackend
  self_max_batch_size :: int
  self_max_batch_time_ms :: int
  self_group_id :: string
  self_auto_offset_reset :: string
  self_strict_offset_reset :: "bool option"
  self_queued_max_messages_kbytes :: int
  self_queued_min_messages :: int
  self_processes :: "int option"
  self_input_block_size :: "int option"
  self_output_block_size :: "int option"
  self_profile_path :: "string option"
  self_commit_retry_policy :: RetryPolicy
  self_validate_schema :: bool

text \<open>
  The test function of the default retry policy:
  \<^verbatim>\<open>lambda e: isinstance(e, KafkaException) and e.args[0].code() in (...)\<close>.
  \<^verbatim>\<open>e.args[0]\<close> raises IndexError on empty \<^verbatim>\<open>args\<close>, and \<^verbatim>\<open>.code()\<close> raises
  AttributeError on a value that has no such method.
\<close>

definition args0 :: "PyObj list \<Rightarrow> PyError + PyObj" where
  "args0 xs = (case xs of [] \<Rightarrow> Inl IndexError | x # _ \<Rightarrow> Inr x)"

definition code :: "PyObj \<Rightarrow> PyError + KafkaErrorCode" where
  "code x = (case x of KafkaError c \<Rightarrow> Inr c | _ \<Rightarrow> Inl AttributeError)"

definition default_test_function :: "PyException \<Rightarrow> PyError + bool" where
  "default_test_function e =
     (case e of
        OtherException _ _ \<Rightarrow> Inr False
      | KafkaException args \<Rightarrow>
          (case args0 args of
             Inl err \<Rightarrow> Inl err
           | Inr a \<Rightarrow>
               (case code a of
                  Inl err \<Rightarrow> Inl err
                | Inr c \<Rightarrow> Inr (c \<in> set [REQUEST_TIMED_OUT, NOT_COORDINATOR, WAIT_COORD]))))"

text \<open>\<^verbatim>\<open>dict.get(key, default)\<close>.\<close>

definition dict_get :: "BrokerConfig \<Rightarrow> string \<Rightarrow> ConfigValue \<Rightarrow> ConfigValue" where
  "dict_get d key dflt = (case d key of None \<Rightarrow> dflt | Some v \<Rightarrow> v)"

text \<open>
  The three topic fields of \<^verbatim>\<open>__init__\<close> (lines 106 to 136). The raw topic always has
  a topic spec to fall back to; the other two may have none. A call of
  \<^verbatim>\<open>get_physical_topic_name\<close> is made, and recorded, only without an override.
\<close>

definition resolve_raw_topic ::
  "string option \<Rightarrow> KafkaStreamLoader \<Rightarrow> int option \<Rightarrow> World \<Rightarrow> Topic \<times> World" where
  "resolve_raw_topic override stream_loader slice_id w =
     (case override of
        Some t \<Rightarrow> (Topic t, w)
      | None \<Rightarrow>
          (let default_topic_spec = get_default_topic_spec stream_loader
           in (Topic (get_physical_topic_name default_topic_spec slice_id),
               call (Call_get_physical_topic_name (topic default_topic_spec) slice_id) w)))"

definition resolve_optional_topic ::
  "string option \<Rightarrow> KafkaTopicSpec option \<Rightarrow> int option \<Rightarrow> World \<Rightarrow> Topic option \<times> World" where
  "resolve_optional_topic override topic_spec slice_id w =
     (case override of
        Some t \<Rightarrow> (Some (Topic t), w)
      | None \<Rightarrow>
          (case topic_spec of
             Some spec \<Rightarrow>
               (Some (Topic (get_physical_topic_name spec slice_id)),
                call (Call_get_physical_topic_name (topic spec) slice_id) w)
           | None \<Rightarrow> (None, w)))"

text \<open>
  \<^verbatim>\<open>ConsumerBuilder.__init__\<close>. The arguments \<open>stats_callback\<close>,
  \<open>commit_retry_policy\<close> and \<open>profile_path\<close> default to \<^verbatim>\<open>None\<close>; \<open>validate_schema\<close>
  is \<open>None\<close> when the caller leaves it out, and the signature's default \<^verbatim>\<open>False\<close>
  stands in.
\<close>

definition ConsumerBuilder_init ::
  "Env \<Rightarrow> StorageKey \<Rightarrow> KafkaParameters \<Rightarrow> ProcessingParameters \<Rightarrow> int \<Rightarrow> int \<Rightarrow> MetricsBackend
    \<Rightarrow> int option \<Rightarrow> StatsCallback option \<Rightarrow> RetryPolicy option \<Rightarrow> bool option \<Rightarrow> string option
    \<Rightarrow> World \<Rightarrow> (PyError + ConsumerBuilder) \<times> World" where
  "ConsumerBuilder_init env storage_key kafka_params processing_params max_batch_size
     max_batch_time_ms metrics slice_id stats_callback commit_retry_policy validate_schema
     profile_path w0 =
     (let storage = get_writable_storage env storage_key;
          w1 = call (Call_get_writable_storage storage_key) w0;
          tp = topic (get_default_topic_spec (get_stream_loader (get_table_writer storage)));
          w2 = call (Call_validate_passed_slice (get_storage_set_key storage) slice_id) w1
      in case validate_passed_slice env (get_storage_set_key storage) slice_id of
           Inl err \<Rightarrow> (Inl err, w2)
         | Inr _ \<Rightarrow>
            (let broker_config =
                   get_default_kafka_configuration env tp slice_id (bootstrap_servers kafka_params);
                 w3 = call (Call_get_default_kafka_configuration tp slice_id) w2;
                 w4 = call (Call_logger_info (dict_get broker_config ''log_level'' (IntV 6))) w3;
                 producer_broker_config =
                   build_kafka_producer_configuration env tp slice_id (bootstrap_servers kafka_params)
                     [''partitioner'' \<mapsto> StrV ''consistent'',
                      ''message.max.bytes'' \<mapsto> IntV 50000000];
                 w5 = call (Call_build_kafka_producer_configuration tp slice_id) w4;
                 stream_loader = get_stream_loader (get_table_writer storage);
                 (raw, w6) = resolve_raw_topic (raw_topic kafka_params) stream_loader slice_id w5;
                 (replacements, w7) =
                   resolve_optional_topic (replacements_topic kafka_params)
                     (get_replacement_topic_spec stream_loader) slice_id w6;
                 (commit_log, w8) =
                   resolve_optional_topic (commit_log_topic kafka_params)
                     (get_commit_log_topic_spec stream_loader) slice_id w7;
                 (producer, w9) = new_Producer producer_broker_config w8
             in (Inr \<lparr>self_storage = storage,
                      self_bootstrap_servers = bootstrap_servers kafka_params,
                      self_consumer_group = group_id kafka_params,
                      self_broker_config = broker_config,
                      self_producer_broker_config = producer_broker_config,
                      self_raw_topic = raw,
                      self_replacements_topic = replacements,
                      self_commit_log_topic = commit_log,
                      self_stats_callback = stats_callback,
                      self_producer = producer,
                      self_metrics = metrics,
                      self_max_batch_size = max_batch_size,
                      self_max_batch_time_ms = max_batch_time_ms,
                      self_group_id = group_id kafka_params,
                      self_auto_offset_reset = auto_offset_reset kafka_params,
                      self_strict_offset_reset = strict_offset_reset kafka_params,
                      self_queued_max_messages_kbytes = queued_max_messages_kbytes kafka_params,
                      self_queued_min_messages = queued_min_messages kafka_params,
                      self_processes = processes processing_params,
                      self_input_block_size = input_block_size processing_params,
                      self_output_block_size = output_block_size processing_params,
                      self_profile_path = profile_path,
                      self_commit_retry_policy =
                        (case commit_retry_policy of
                           None \<Rightarrow> BasicRetryPolicy 3 1 default_test_function
                         | Some policy \<Rightarrow> policy),
                      self_validate_schema =
                        (case validate_schema of None \<Rightarrow> False | Some v \<Rightarrow> v)\<rparr>,
                 w9)))"

subsection \<open>The pipeline description\<close>

text \<open>
  The arguments \<^verbatim>\<open>build_batch_writer\<close> is called with: the collector is made from
  them by a module that is not in the sources.
\<close>

record BatchWriter =
  bw_table_writer :: TableWriter
  bw_metrics :: MetricsBackend
  bw_replacements_producer :: "Producer option"
  bw_replacements_topic :: "Topic option"
  bw_slice_id :: "int option"
  bw_commit_log_config :: "CommitLogConfig option"

text \<open>The keyword arguments of \<^verbatim>\<open>KafkaConsumerStrategyFactory\<close>.\<close>

record ('m, 'r) StrategyArgs =
  sf_prefilter :: "StreamMessageFilter option"
  sf_process_message :: "'m \<Rightarrow> 'r"
  sf_collector :: BatchWriter
  sf_max_batch_size :: int
  sf_max_batch_time :: PyFloat
  sf_processes :: "int option"
  sf_input_block_size :: "int option"
  sf_output_block_size :: "int option"
  sf_initialize_parallel_transform :: string
  sf_dead_letter_queue_policy_creator :: "DlqPolicyCreator option"

datatype ('m, 'r) StrategyFactory =
  KafkaConsumerStrategyFactory "('m, 'r) StrategyArgs"
| ProcessingStrategyProfilerWrapperFactory "('m, 'r) StrategyFactory" string

text \<open>The description under the profiling wrappers, if any.\<close>

primrec strategy_args :: "('m, 'r) StrategyFactory \<Rightarrow> ('m, 'r) StrategyArgs" where
  "strategy_args (KafkaConsumerStrategyFactory a) = a"
| "strategy_args (ProcessingStrategyProfilerWrapperFactory f _) = strategy_args f"

text \<open>
  Truth value of a \<^verbatim>\<open>Topic\<close> object in \<^verbatim>\<open>if self.commit_log_topic:\<close>. The class
  defines neither \<^verbatim>\<open>__bool__\<close> nor \<^verbatim>\<open>__len__\<close>, so every instance is true, also
  one with an empty name; only \<^verbatim>\<open>None\<close> is false.
\<close>

definition topic_truthy :: "Topic \<Rightarrow> bool" where
  "topic_truthy t = True"

text \<open>\<^verbatim>\<open>functools.partial(f, a, b, c, d)\<close>: the function of the remaining argument.\<close>

definition partial4 :: "('a \<Rightarrow> 'b \<Rightarrow> 'c \<Rightarrow> 'd \<Rightarrow> 'm \<Rightarrow> 'r) \<Rightarrow> 'a \<Rightarrow> 'b \<Rightarrow> 'c \<Rightarrow> 'd \<Rightarrow> 'm \<Rightarrow> 'r" where
  "partial4 f a b c d = (\<lambda>m. f a b c d m)"

text \<open>
  \<^verbatim>\<open>ConsumerBuilder.__build_streaming_strategy_factory\<close>. The function
  \<^verbatim>\<open>process_message\<close> of \<^verbatim>\<open>snuba.consumers.consumer\<close> is not in the sources and is
  the first parameter.
\<close>

definition build_streaming_strategy_factory ::
  "(MessageProcessor \<Rightarrow> string \<Rightarrow> string \<Rightarrow> bool \<Rightarrow> 'm \<Rightarrow> 'r) \<Rightarrow> ConsumerBuilder \<Rightarrow> int option
    \<Rightarrow> ('m, 'r) StrategyFactory" where
  "build_streaming_strategy_factory process_message self slice_id =
     (let table_writer = get_table_writer (self_storage self);
          stream_loader = get_stream_loader table_writer;
          logical_topic = topic (get_default_topic_spec stream_loader);
          processor = get_processor stream_loader;
          commit_log_config =
            (case self_commit_log_topic self of
               None \<Rightarrow> None
             | Some t \<Rightarrow>
                 if topic_truthy t
                 then Some (CommitLogConfig (self_producer self) t (self_group_id self))
                 else None);
          strategy_factory =
            KafkaConsumerStrategyFactory
              \<lparr>sf_prefilter = get_pre_filter stream_loader,
               sf_process_message =
                 partial4 process_message processor (self_consumer_group self) logical_topic
                   (self_validate_schema self),
               sf_collector =
                 \<lparr>bw_table_writer = table_writer,
                  bw_metrics = self_metrics self,
                  bw_replacements_producer =
                    (if self_replacements_topic self \<noteq> None then Some (self_producer self)
                     else None),
                  bw_replacements_topic = self_replacements_topic self,
                  bw_slice_id = slice_id,
                  bw_commit_log_config = commit_log_config\<rparr>,
               sf_max_batch_size = self_max_batch_size self,
               sf_max_batch_time = TrueDiv (self_max_batch_time_ms self) 1000,
               sf_processes = self_processes self,
               sf_input_block_size = self_input_block_size self,
               sf_output_block_size = self_output_block_size self,
               sf_initialize_parallel_transform = ''setup_sentry'',
               sf_dead_letter_queue_policy_creator =
                 get_dead_letter_queue_policy_creator stream_loader\<rparr>
      in case self_profile_path self of
           Some path \<Rightarrow> ProcessingStrategyProfilerWrapperFactory strategy_factory path
         | None \<Rightarrow> strategy_factory)"

subsection \<open>The consumer\<close>

datatype KafkaConsumer =
  KafkaConsumer (consumer_handle: nat) (consumer_configuration: BrokerConfig)
    (consumer_commit_retry_policy: RetryPolicy)

datatype CommitPolicy = IMMEDIATE

record ('m, 'r) StreamProcessor =
  sp_consumer :: KafkaConsumer
  sp_topic :: Topic
  sp_processor_factory :: "('m, 'r) StrategyFactory"
  sp_commit_policy :: CommitPolicy

definition new_KafkaConsumer :: "BrokerConfig \<Rightarrow> RetryPolicy \<Rightarrow> World \<Rightarrow> KafkaConsumer \<times> World" where
  "new_KafkaConsumer config policy w =
     (KafkaConsumer (next_handle w) config policy,
      w\<lparr>calls := calls w @ [Call_KafkaConsumer (next_handle w)], next_handle := Suc (next_handle w)\<rparr>)"

text \<open>Truth value of an integer: \<^verbatim>\<open>0\<close> is false.\<close>

definition int_truthy :: "int \<Rightarrow> bool" where
  "int_truthy x = (x \<noteq> 0)"

text \<open>
  The setting read at lines 198 to 201: the inner call, the global default, is evaluated
  first and is the fallback of the lookup keyed by the group id.
\<close>

definition stats_collection_frequency_ms :: "Env \<Rightarrow> ConsumerBuilder \<Rightarrow> int" where
  "stats_collection_frequency_ms env self =
     get_config env (''stats_collection_freq_ms_'' @ self_group_id self)
       (get_config env ''stats_collection_freq_ms'' 0)"

definition stats_cb_value :: "StatsCallback option \<Rightarrow> ConfigValue" where
  "stats_cb_value cb = (case cb of None \<Rightarrow> NoneV | Some c \<Rightarrow> CallbackV c)"

text \<open>\<^verbatim>\<open>ConsumerBuilder.__build_consumer\<close>.\<close>

definition build_consumer ::
  "Env \<Rightarrow> ConsumerBuilder \<Rightarrow> ('m, 'r) StrategyFactory \<Rightarrow> int option \<Rightarrow> World
    \<Rightarrow> ('m, 'r) StreamProcessor \<times> World" where
  "build_consumer env self strategy_factory slice_id w0 =
     (let tp = topic (get_default_topic_spec
                 (get_stream_loader (get_table_writer (self_storage self))));
          configuration =
            build_kafka_consumer_configuration env tp (self_bootstrap_servers self)
              (self_group_id self) slice_id (self_auto_offset_reset self)
              (self_strict_offset_reset self) (self_queued_max_messages_kbytes self)
              (self_queued_min_messages self);
          w1 = call (Call_build_kafka_consumer_configuration tp slice_id) w0;
          w2 = call (Call_get_config ''stats_collection_freq_ms'') w1;
          w3 = call (Call_get_config (''stats_collection_freq_ms_'' @ self_group_id self)) w2;
          freq = stats_collection_frequency_ms env self;
          configuration' =
            (if int_truthy freq \<and> freq > 0
             then configuration ++
                    [''statistics.interval.ms'' \<mapsto> IntV freq,
                     ''stats_cb'' \<mapsto> stats_cb_value (self_stats_callback self)]
             else configuration);
          (consumer, w4) = new_KafkaConsumer configuration' (self_commit_retry_policy self) w3
      in (\<lparr>sp_consumer = consumer,
           sp_topic = self_raw_topic self,
           sp_processor_factory = strategy_factory,
           sp_commit_policy = IMMEDIATE\<rparr>,
          w4))"

text \<open>\<^verbatim>\<open>ConsumerBuilder.build_base_consumer\<close>; \<open>slice_id\<close> defaults to \<^verbatim>\<open>None\<close>.\<close>

definition build_base_consumer ::
  "Env \<Rightarrow> (MessageProcessor \<Rightarrow> string \<Rightarrow> string \<Rightarrow> bool \<Rightarrow> 'm \<Rightarrow> 'r) \<Rightarrow> ConsumerBuilder
    \<Rightarrow> int option \<Rightarrow> World \<Rightarrow> ('m, 'r) StreamProcessor \<times> World" where
  "build_base_consumer env process_message self slice_id w =
     build_consumer env self (build_streaming_strategy_factory process_message self slice_id)
       slice_id w"

subsection \<open>What the spec says of topic resolution\<close>

text \<open>
  The spec's rule for one topic, in its words: the override when present, else the
  physical name of the dataset's topic spec under the slice, else absent.
\<close>

definition override_else_derived_else_absent ::
  "string option \<Rightarrow> KafkaTopicSpec option \<Rightarrow> int option \<Rightarrow> Topic option" where
  "override_else_derived_else_absent override topic_spec slice_id =
     (if override \<noteq> None then map_option Topic override
      else if topic_spec \<noteq> None
      then map_option (\<lambda>spec. Topic (get_physical_topic_name spec slice_id)) topic_spec
      else None)"

text \<open>The calls that allocate a producer.\<close>

definition is_Producer_call :: "Call \<Rightarrow> bool" where
  "is_Producer_call c = (case c of Call_Producer _ \<Rightarrow> True | _ \<Rightarrow> False)"

subsection \<open>A dataset to run the builder on\<close>

text \<open>
  Two storages in the manner of the spec's examples: \<open>''errors''\<close> on a storage set
  with three slices, default topic \<open>events\<close>, with a replacement and a commit-log
  topic; and \<open>''metrics''\<close>, not sliced, with the default topic only.
\<close>

definition example_topic_spec :: "string \<Rightarrow> KafkaTopicSpec" where
  "example_topic_spec n =
     \<lparr>topic = n,
      get_physical_topic_name =
        (\<lambda>slice_id. case slice_id of
             None \<Rightarrow> n
           | Some i \<Rightarrow> n @ (if i = 0 then ''-0'' else if i = 1 then ''-1'' else ''-2''))\<rparr>"

definition example_errors_storage :: WritableStorage where
  "example_errors_storage =
     \<lparr>get_storage_set_key = ''events'',
      get_table_writer =
        \<lparr>writer_name = ''errors_local'',
         get_stream_loader =
           \<lparr>get_processor = ''ErrorsProcessor'',
            get_default_topic_spec = example_topic_spec ''events'',
            get_pre_filter = None,
            get_replacement_topic_spec = Some (example_topic_spec ''event-replacements''),
            get_commit_log_topic_spec = Some (example_topic_spec ''snuba-commit-log''),
            get_dead_letter_queue_policy_creator = None\<rparr>\<rparr>\<rparr>"

definition example_metrics_storage :: WritableStorage where
  "example_metrics_storage =
     \<lparr>get_storage_set_key = ''metrics'',
      get_table_writer =
        \<lparr>writer_name = ''metrics_raw_local'',
         get_stream_loader =
           \<lparr>get_processor = ''MetricsProcessor'',
            get_default_topic_spec = example_topic_spec ''snuba-metrics'',
            get_pre_filter = None,
            get_replacement_topic_spec = None,
            get_commit_log_topic_spec = None,
            get_dead_letter_queue_policy_creator = None\<rparr>\<rparr>\<rparr>"

definition example_env :: Env where
  "example_env =
     \<lparr>get_writable_storage =
        (\<lambda>k. if k = ''errors'' then example_errors_storage else example_metrics_storage),
      slice_is_valid = (\<lambda>storage_set s. storage_set = ''events'' \<and> 0 \<le> s \<and> s < 3),
      get_default_kafka_configuration =
        (\<lambda>tp slice_id servers.
           [''bootstrap.servers'' \<mapsto> StrV ''kafka:9092'',
            ''partitioner'' \<mapsto> StrV ''random'',
            ''message.max.bytes'' \<mapsto> IntV 1000000]),
      build_kafka_consumer_configuration =
        (\<lambda>tp servers grp slice_id reset strict qmax qmin.
           [''bootstrap.servers'' \<mapsto>
              StrV (case slice_id of None \<Rightarrow> ''kafka:9092'' | Some _ \<Rightarrow> ''kafka-sliced:9092''),
            ''group.id'' \<mapsto> StrV grp,
            ''auto.offset.reset'' \<mapsto> StrV reset]),
      runtime_config = [''stats_collection_freq_ms'' \<mapsto> 1000]\<rparr>"

definition example_kafka_params :: KafkaParameters where
  "example_kafka_params =
     \<lparr>raw_topic = None,
      replacements_topic = None,
      bootstrap_servers = None,
      group_id = ''ingest-group'',
      commit_log_topic = Some ''commits-override'',
      auto_offset_reset = ''earliest'',
      strict_offset_reset = None,
      queued_max_messages_kbytes = 10000,
      queued_min_messages = 1000\<rparr>"

text \<open>The same parameters with no topic override at all.\<close>

definition example_plain_kafka_params :: KafkaParameters where
  "example_plain_kafka_params = example_kafka_params\<lparr>commit_log_topic := None\<rparr>"

definition example_processing_params :: ProcessingParameters where
  "example_processing_params =
     \<lparr>processes = None, input_block_size = None, output_block_size = None\<rparr>"

definition example_world :: World where
  "example_world = \<lparr>calls = [], next_handle = 0\<rparr>"

text \<open>The builder on the examples, by storage, slice, retry policy and schema flag.\<close>

definition example_init ::
  "StorageKey \<Rightarrow> int option \<Rightarrow> RetryPolicy option \<Rightarrow> bool option
    \<Rightarrow> (PyError + ConsumerBuilder) \<times> World" where
  "example_init storage_key slice_id policy validate_schema =
     ConsumerBuilder_init example_env storage_key example_kafka_params
       example_processing_params 1000 2000 ''metrics-backend'' slice_id None policy
       validate_schema None example_world"

text \<open>
  The time bound in the pipeline description of the consumer built from the builder
  that is constructed with the given \<open>max_batch_time_ms\<close>.
\<close>

definition example_batch_time :: "int \<Rightarrow> PyFloat" where
  "example_batch_time ms =
     sf_max_batch_time (strategy_args (sp_processor_factory
       (fst (build_base_consumer example_env (\<lambda>p g t v m. m :: string)
          (projr (fst (ConsumerBuilder_init example_env ''errors'' example_kafka_params
             example_processing_params 1000 ms ''metrics-backend'' (Some 2) None None None None
             example_world)))
          None example_world))))"

section \<open>Properties\<close>

subsection \<open>Construction succeeds on a valid slice\<close>

lemmas example_defs =
  example_init_def example_env_def example_errors_storage_def example_metrics_storage_def
  example_kafka_params_def example_plain_kafka_params_def example_processing_params_def
  example_world_def example_topic_spec_def

lemma init_valid:
  assumes "validate_passed_slice env (get_storage_set_key (get_writable_storage env storage_key))
             slice_id = Inr ()"
  shows "\<exists>self w. ConsumerBuilder_init env storage_key kafka_params processing_params mbs mbt
            metrics slice_id cb policy vs prof w0 = (Inr self, w)"
  using assms by (simp add: ConsumerBuilder_init_def Let_def case_prod_beta)

subsection \<open>Topic resolution\<close>

lemma fst_resolve_raw_topic:
  "Some (fst (resolve_raw_topic override sl slice_id w)) =
     override_else_derived_else_absent override (Some (get_default_topic_spec sl)) slice_id"
  by (simp add: resolve_raw_topic_def override_else_derived_else_absent_def Let_def
      split: option.splits)

lemma fst_resolve_optional_topic:
  "fst (resolve_optional_topic override spec slice_id w) =
     override_else_derived_else_absent override spec slice_id"
  by (simp add: resolve_optional_topic_def override_else_derived_else_absent_def
      split: option.splits)

lemma init_topics:
  assumes "ConsumerBuilder_init env storage_key kafka_params processing_params mbs mbt
            metrics slice_id cb policy vs prof w0 = (Inr self, w)"
  shows "Some (self_raw_topic self) =
           override_else_derived_else_absent (raw_topic kafka_params)
             (Some (get_default_topic_spec
                (get_stream_loader (get_table_writer (get_writable_storage env storage_key)))))
             slice_id"
    and "self_replacements_topic self =
           override_else_derived_else_absent (replacements_topic kafka_params)
             (get_replacement_topic_spec
                (get_stream_loader (get_table_writer (get_writable_storage env storage_key))))
             slice_id"
    and "self_commit_log_topic self =
           override_else_derived_else_absent (commit_log_topic kafka_params)
             (get_commit_log_topic_spec
                (get_stream_loader (get_table_writer (get_writable_storage env storage_key))))
             slice_id"
  using assms
  by (auto simp: ConsumerBuilder_init_def Let_def case_prod_beta fst_resolve_raw_topic
      fst_resolve_optional_topic split: sum.splits)

text \<open>
  C1. On a slice that passes validation the builder is constructed, and each of its three
  topics is resolved by the spec's rule, one independently of the others: the operator's
  override when there is one, else the physical name of the dataset's topic spec under
  the slice id given to the constructor (the unsliced name for no slice id), else absent.
  The raw topic is never absent, its topic spec always exists.
\<close>

theorem topics_resolved:
  assumes "validate_passed_slice env (get_storage_set_key (get_writable_storage env storage_key))
             slice_id = Inr ()"
  shows "let stream_loader =
               get_stream_loader (get_table_writer (get_writable_storage env storage_key))
         in \<exists>self w.
              ConsumerBuilder_init env storage_key kafka_params processing_params max_batch_size
                max_batch_time_ms metrics slice_id stats_callback commit_retry_policy
                validate_schema profile_path w0 = (Inr self, w) \<and>
              Some (self_raw_topic self) =
                override_else_derived_else_absent (raw_topic kafka_params)
                  (Some (get_default_topic_spec stream_loader)) slice_id \<and>
              self_replacements_topic self =
                override_else_derived_else_absent (replacements_topic kafka_params)
                  (get_replacement_topic_spec stream_loader) slice_id \<and>
              self_commit_log_topic self =
                override_else_derived_else_absent (commit_log_topic kafka_params)
                  (get_commit_log_topic_spec stream_loader) slice_id"
proof -
  obtain self w where ok:
    "ConsumerBuilder_init env storage_key kafka_params processing_params max_batch_size
       max_batch_time_ms metrics slice_id stats_callback commit_retry_policy validate_schema
       profile_path w0 = (Inr self, w)"
    using init_valid [OF assms] by blast
  show ?thesis
    unfolding Let_def using ok init_topics [OF ok] by blast
qed

text \<open>
  On the sliced storage with slice 2 and an override of the commit-log topic only: the raw
  and the replacement topic are the physical names for slice 2, the commit-log topic is
  the override.
\<close>

theorem topics_resolved_witness:
  "\<exists>self w. example_init ''errors'' (Some 2) None None = (Inr self, w) \<and>
     self_raw_topic self = Topic ''events-2'' \<and>
     self_replacements_topic self = Some (Topic ''event-replacements-2'') \<and>
     self_commit_log_topic self = Some (Topic ''commits-override'')"
  using topics_resolved [of example_env "''errors''" "Some 2" example_kafka_params
      example_processing_params 1000 2000 "''metrics-backend''" None None None None example_world]
  by (simp add: example_defs validate_passed_slice_def override_else_derived_else_absent_def)

subsection \<open>The commit retry policy\<close>

lemma init_policy:
  assumes "ConsumerBuilder_init env storage_key kafka_params processing_params mbs mbt
            metrics slice_id cb policy vs prof w0 = (Inr self, w)"
  shows "self_commit_retry_policy self =
           (case policy of None \<Rightarrow> BasicRetryPolicy 3 1 default_test_function | Some p \<Rightarrow> p)"
  using assms
  by (auto simp: ConsumerBuilder_init_def Let_def case_prod_beta split: sum.splits)

lemma default_test_function_True:
  "(default_test_function e = Inr True) =
     (\<exists>c rest. e = KafkaException (KafkaError c # rest) \<and>
        (c = REQUEST_TIMED_OUT \<or> c = NOT_COORDINATOR \<or> c = WAIT_COORD))"
  by (auto simp: default_test_function_def args0_def code_def
      split: PyException.splits list.splits PyObj.splits)

lemma default_test_function_False:
  "(default_test_function e = Inr False) =
     ((\<exists>cls a. e = OtherException cls a) \<or>
      (\<exists>c rest. e = KafkaException (KafkaError c # rest) \<and>
         c \<noteq> REQUEST_TIMED_OUT \<and> c \<noteq> NOT_COORDINATOR \<and> c \<noteq> WAIT_COORD))"
  by (auto simp: default_test_function_def args0_def code_def
      split: PyException.splits list.splits PyObj.splits)

lemma default_test_function_raises:
  "default_test_function (KafkaException []) = Inl IndexError"
  "default_test_function (KafkaException (PyStr s # rest)) = Inl AttributeError"
  "default_test_function (KafkaException (PyInt i # rest)) = Inl AttributeError"
  "default_test_function (KafkaException (PyNone # rest)) = Inl AttributeError"
  by (simp_all add: default_test_function_def args0_def code_def)

text \<open>
  C2, as the claim states it, fails on a malformed broker exception: on a
  \<^verbatim>\<open>KafkaException\<close> without arguments the predicate of the installed default policy
  does not return false, it raises IndexError from \<^verbatim>\<open>e.args[0]\<close>.
\<close>

theorem malformed_exception_counterexample:
  "test_function
     (self_commit_retry_policy (projr (fst (example_init ''errors'' (Some 2) None None))))
     (KafkaException []) = Inl IndexError"
  by (simp add: example_defs ConsumerBuilder_init_def validate_passed_slice_def Let_def
      case_prod_beta default_test_function_def args0_def)

text \<open>
  C2, amended. On a slice that passes validation the builder is constructed with the
  caller's retry policy unchanged when one is supplied, and otherwise with the basic
  policy of 3 attempts and delay 1 whose predicate
  \<^item> returns true exactly on a \<^verbatim>\<open>KafkaException\<close> whose first argument is a
    \<^verbatim>\<open>KafkaError\<close> with code request-timed-out, not-coordinator or wait-for-coordinator;
  \<^item> returns false exactly on an exception that is no \<^verbatim>\<open>KafkaException\<close> and on a
    \<^verbatim>\<open>KafkaException\<close> whose first argument is a \<^verbatim>\<open>KafkaError\<close> with another code;
  \<^item> raises, and returns nothing, on a malformed \<^verbatim>\<open>KafkaException\<close>: IndexError
    without arguments, AttributeError on a first argument that has no \<^verbatim>\<open>code()\<close>.
\<close>

theorem default_commit_retry_policy:
  assumes "validate_passed_slice env (get_storage_set_key (get_writable_storage env storage_key))
             slice_id = Inr ()"
  shows "(\<exists>self w.
            ConsumerBuilder_init env storage_key kafka_params processing_params max_batch_size
              max_batch_time_ms metrics slice_id stats_callback commit_retry_policy
              validate_schema profile_path w0 = (Inr self, w) \<and>
            self_commit_retry_policy self =
              (case commit_retry_policy of
                 Some policy \<Rightarrow> policy
               | None \<Rightarrow> BasicRetryPolicy 3 1 default_test_function)) \<and>
         (default_test_function e = Inr True) =
           (\<exists>c rest. e = KafkaException (KafkaError c # rest) \<and>
              (c = REQUEST_TIMED_OUT \<or> c = NOT_COORDINATOR \<or> c = WAIT_COORD)) \<and>
         (default_test_function e = Inr False) =
           ((\<exists>cls a. e = OtherException cls a) \<or>
            (\<exists>c rest. e = KafkaException (KafkaError c # rest) \<and>
               c \<noteq> REQUEST_TIMED_OUT \<and> c \<noteq> NOT_COORDINATOR \<and> c \<noteq> WAIT_COORD)) \<and>
         default_test_function (KafkaException []) = Inl IndexError \<and>
         default_test_function (KafkaException (PyStr s # rest)) = Inl AttributeError \<and>
         default_test_function (KafkaException (PyInt i # rest)) = Inl AttributeError \<and>
         default_test_function (KafkaException (PyNone # rest)) = Inl AttributeError"
proof -
  obtain self w where ok:
    "ConsumerBuilder_init env storage_key kafka_params processing_params max_batch_size
       max_batch_time_ms metrics slice_id stats_callback commit_retry_policy validate_schema
       profile_path w0 = (Inr self, w)"
    using init_valid [OF assms] by blast
  have "self_commit_retry_policy self =
          (case commit_retry_policy of
             Some policy \<Rightarrow> policy
           | None \<Rightarrow> BasicRetryPolicy 3 1 default_test_function)"
    using init_policy [OF ok] by (simp split: option.splits)
  with ok have first: "\<exists>self w.
            ConsumerBuilder_init env storage_key kafka_params processing_params max_batch_size
              max_batch_time_ms metrics slice_id stats_callback commit_retry_policy
              validate_schema profile_path w0 = (Inr self, w) \<and>
            self_commit_retry_policy self =
              (case commit_retry_policy of
                 Some policy \<Rightarrow> policy
               | None \<Rightarrow> BasicRetryPolicy 3 1 default_test_function)"
    by blast
  show ?thesis
    using first default_test_function_True [of e] default_test_function_False [of e]
      default_test_function_raises
    by simp
qed

text \<open>
  With no policy supplied the default one is installed; its predicate retries a
  not-coordinator failure and does not retry a failure with another code.
\<close>

theorem default_commit_retry_policy_witness:
  "(\<exists>self w. example_init ''errors'' (Some 2) None None = (Inr self, w) \<and>
      self_commit_retry_policy self = BasicRetryPolicy 3 1 default_test_function) \<and>
   default_test_function (KafkaException [KafkaError NOT_COORDINATOR]) = Inr True \<and>
   default_test_function (KafkaException [KafkaError (OTHER_CODE 3)]) = Inr False"
  using default_commit_retry_policy [of example_env "''errors''" "Some 2" example_kafka_params
      example_processing_params 1000 2000 "''metrics-backend''" None None None None example_world
      "KafkaException [KafkaError NOT_COORDINATOR]"]
   default_commit_retry_policy [of example_env "''errors''" "Some 2" example_kafka_params
      example_processing_params 1000 2000 "''metrics-backend''" None None None None example_world
      "KafkaException [KafkaError (OTHER_CODE 3)]"]
  by (simp add: example_defs validate_passed_slice_def)

subsection \<open>Slice validation comes first\<close>

text \<open>
  C4. For a slice id that is not valid for the storage set of the storage, construction
  raises ConfigurationError and returns no builder. Up to then the constructor has only
  looked the storage up and called the validation: no configuration was built, no topic
  name was asked for, and no client handle was allocated.
\<close>

theorem invalid_slice_raises_first:
  assumes "slice_id = Some s"
    and "\<not> slice_is_valid env (get_storage_set_key (get_writable_storage env storage_key)) s"
  shows "ConsumerBuilder_init env storage_key kafka_params processing_params max_batch_size
           max_batch_time_ms metrics slice_id stats_callback commit_retry_policy
           validate_schema profile_path w0 =
         (Inl ConfigurationError,
          w0\<lparr>calls := calls w0 @
             [Call_get_writable_storage storage_key,
              Call_validate_passed_slice
                (get_storage_set_key (get_writable_storage env storage_key)) slice_id]\<rparr>)"
  using assms
  by (simp add: ConsumerBuilder_init_def validate_passed_slice_def Let_def call_def)

text \<open>Slice 7 of a storage set with three slices.\<close>

theorem invalid_slice_raises_first_witness:
  "example_init ''errors'' (Some 7) None None =
     (Inl ConfigurationError,
      \<lparr>calls = [Call_get_writable_storage ''errors'',
                Call_validate_passed_slice ''events'' (Some 7)],
       next_handle = 0\<rparr>)"
  using invalid_slice_raises_first [of "Some 7" 7 example_env "''errors''" example_kafka_params
      example_processing_params 1000 2000 "''metrics-backend''" None None None None example_world]
  by (simp add: example_defs)

subsection \<open>The pipeline description\<close>

lemma strategy_args_build:
  "strategy_args (build_streaming_strategy_factory process_message self slice_id) =
     \<lparr>sf_prefilter = get_pre_filter (get_stream_loader (get_table_writer (self_storage self))),
      sf_process_message =
        partial4 process_message
          (get_processor (get_stream_loader (get_table_writer (self_storage self))))
          (self_consumer_group self)
          (topic (get_default_topic_spec
             (get_stream_loader (get_table_writer (self_storage self)))))
          (self_validate_schema self),
      sf_collector =
        \<lparr>bw_table_writer = get_table_writer (self_storage self),
         bw_metrics = self_metrics self,
         bw_replacements_producer =
           (if self_replacements_topic self \<noteq> None then Some (self_producer self) else None),
         bw_replacements_topic = self_replacements_topic self,
         bw_slice_id = slice_id,
         bw_commit_log_config =
           map_option (\<lambda>t. CommitLogConfig (self_producer self) t (self_group_id self))
             (self_commit_log_topic self)\<rparr>,
      sf_max_batch_size = self_max_batch_size self,
      sf_max_batch_time = TrueDiv (self_max_batch_time_ms self) 1000,
      sf_processes = self_processes self,
      sf_input_block_size = self_input_block_size self,
      sf_output_block_size = self_output_block_size self,
      sf_initialize_parallel_transform = ''setup_sentry'',
      sf_dead_letter_queue_policy_creator =
        get_dead_letter_queue_policy_creator
          (get_stream_loader (get_table_writer (self_storage self)))\<rparr>"
  by (simp add: build_streaming_strategy_factory_def Let_def topic_truthy_def
      split: option.splits)

lemma factory_of_build_base_consumer:
  "sp_processor_factory (fst (build_base_consumer env process_message self slice_id w)) =
     build_streaming_strategy_factory process_message self slice_id"
  by (simp add: build_base_consumer_def build_consumer_def Let_def case_prod_beta)

text \<open>
  C3. In the pipeline description of a consumer built from any builder, the collector
  has a commit-log configuration exactly when the builder has a commit-log topic, and
  the configuration is then the builder's producer, that topic and the group id; the
  collector has a replacement producer exactly when the builder has a replacement topic,
  which is exactly when the collector has a replacement topic.
\<close>

theorem emission_bindings_match_topics:
  "let collector =
         sf_collector (strategy_args
           (sp_processor_factory (fst (build_base_consumer env process_message self slice_id w))))
   in (bw_commit_log_config collector \<noteq> None) = (self_commit_log_topic self \<noteq> None) \<and>
      bw_commit_log_config collector =
        map_option (\<lambda>t. CommitLogConfig (self_producer self) t (self_group_id self))
          (self_commit_log_topic self) \<and>
      (bw_replacements_producer collector \<noteq> None) = (self_replacements_topic self \<noteq> None) \<and>
      (bw_replacements_producer collector \<noteq> None) = (bw_replacements_topic collector \<noteq> None) \<and>
      bw_replacements_topic collector = self_replacements_topic self"
  by (simp add: factory_of_build_base_consumer strategy_args_build Let_def)

subsection \<open>What the constructor stores and allocates\<close>

lemma init_fields:
  assumes "ConsumerBuilder_init env storage_key kafka_params processing_params mbs mbt
            metrics slice_id cb policy vs prof w0 = (Inr self, w)"
  shows "self_storage self = get_writable_storage env storage_key"
    and "self_consumer_group self = group_id kafka_params"
    and "self_group_id self = group_id kafka_params"
    and "self_validate_schema self = (case vs of None \<Rightarrow> False | Some v \<Rightarrow> v)"
    and "self_bootstrap_servers self = bootstrap_servers kafka_params"
    and "self_auto_offset_reset self = auto_offset_reset kafka_params"
    and "self_strict_offset_reset self = strict_offset_reset kafka_params"
    and "self_queued_max_messages_kbytes self = queued_max_messages_kbytes kafka_params"
    and "self_queued_min_messages self = queued_min_messages kafka_params"
    and "self_stats_callback self = cb"
  using assms
  by (auto simp: ConsumerBuilder_init_def Let_def case_prod_beta split: sum.splits)

lemma resolve_raw_topic_world:
  "next_handle (snd (resolve_raw_topic override sl slice_id w)) = next_handle w"
  "filter is_Producer_call (calls (snd (resolve_raw_topic override sl slice_id w))) =
     filter is_Producer_call (calls w)"
  by (simp_all add: resolve_raw_topic_def Let_def call_def is_Producer_call_def
      split: option.splits)

lemma resolve_optional_topic_world:
  "next_handle (snd (resolve_optional_topic override spec slice_id w)) = next_handle w"
  "filter is_Producer_call (calls (snd (resolve_optional_topic override spec slice_id w))) =
     filter is_Producer_call (calls w)"
  by (simp_all add: resolve_optional_topic_def call_def is_Producer_call_def
      split: option.splits)

lemma call_world:
  "next_handle (call c w) = next_handle w"
  "filter is_Producer_call (calls (call c w)) =
     filter is_Producer_call (calls w) @ (if is_Producer_call c then [c] else [])"
  by (simp_all add: call_def)

lemma init_producer_config:
  assumes "ConsumerBuilder_init env storage_key kafka_params processing_params mbs mbt
            metrics slice_id cb policy vs prof w0 = (Inr self, w)"
  shows "self_producer_broker_config self =
           build_kafka_producer_configuration env
             (topic (get_default_topic_spec
                (get_stream_loader (get_table_writer (get_writable_storage env storage_key)))))
             slice_id (bootstrap_servers kafka_params)
             [''partitioner'' \<mapsto> StrV ''consistent'', ''message.max.bytes'' \<mapsto> IntV 50000000]"
    and "self_producer self = Producer (next_handle w0) (self_producer_broker_config self)"
    and "next_handle w = Suc (next_handle w0)"
    and "filter is_Producer_call (calls w) =
           filter is_Producer_call (calls w0) @ [Call_Producer (next_handle w0)]"
  using assms
  by (auto simp: ConsumerBuilder_init_def Let_def case_prod_beta new_Producer_def
      resolve_raw_topic_world resolve_optional_topic_world call_world is_Producer_call_def
      split: sum.splits)

subsection \<open>The producer configuration\<close>

text \<open>
  C5. On a slice that passes validation the builder is constructed, and its producer
  configuration has \<open>partitioner\<close> at \<open>consistent\<close> and \<open>message.max.bytes\<close> at
  50000000, whatever the default configuration of the environment holds for these two
  keys; the producer client is created from this configuration.
\<close>

theorem producer_config_forced:
  assumes "validate_passed_slice env (get_storage_set_key (get_writable_storage env storage_key))
             slice_id = Inr ()"
  shows "\<exists>self w.
           ConsumerBuilder_init env storage_key kafka_params processing_params max_batch_size
             max_batch_time_ms metrics slice_id stats_callback commit_retry_policy
             validate_schema profile_path w0 = (Inr self, w) \<and>
           self_producer_broker_config self ''partitioner'' = Some (StrV ''consistent'') \<and>
           self_producer_broker_config self ''message.max.bytes'' = Some (IntV 50000000) \<and>
           producer_config (self_producer self) = self_producer_broker_config self"
proof -
  obtain self w where ok:
    "ConsumerBuilder_init env storage_key kafka_params processing_params max_batch_size
       max_batch_time_ms metrics slice_id stats_callback commit_retry_policy validate_schema
       profile_path w0 = (Inr self, w)"
    using init_valid [OF assms] by blast
  have "self_producer_broker_config self ''partitioner'' = Some (StrV ''consistent'')"
    and "self_producer_broker_config self ''message.max.bytes'' = Some (IntV 50000000)"
    and "producer_config (self_producer self) = self_producer_broker_config self"
    using init_producer_config(1,2) [OF ok]
    by (simp_all add: build_kafka_producer_configuration_def)
  with ok show ?thesis by blast
qed

text \<open>
  The default configuration of the example sets \<open>partitioner\<close> to \<open>random\<close>; the
  producer configuration has \<open>consistent\<close>.
\<close>

theorem producer_config_forced_witness:
  "get_default_kafka_configuration example_env ''snuba-metrics'' None None ''partitioner'' =
     Some (StrV ''random'') \<and>
   (\<exists>self w. example_init ''metrics'' None None None = (Inr self, w) \<and>
      self_producer_broker_config self ''partitioner'' = Some (StrV ''consistent'') \<and>
      self_producer_broker_config self ''message.max.bytes'' = Some (IntV 50000000) \<and>
      producer_config (self_producer self) = self_producer_broker_config self)"
  using producer_config_forced [of example_env "''metrics''" None example_kafka_params
      example_processing_params 1000 2000 "''metrics-backend''" None None None None example_world]
  by (simp add: example_defs validate_passed_slice_def)

subsection \<open>The consumer configuration\<close>

lemma configuration_of_build_consumer:
  "consumer_configuration (sp_consumer (fst (build_consumer env self strategy_factory slice_id w))) =
     (let configuration =
            build_kafka_consumer_configuration env
              (topic (get_default_topic_spec
                 (get_stream_loader (get_table_writer (self_storage self)))))
              (self_bootstrap_servers self) (self_group_id self) slice_id
              (self_auto_offset_reset self) (self_strict_offset_reset self)
              (self_queued_max_messages_kbytes self) (self_queued_min_messages self)
      in if 0 < stats_collection_frequency_ms env self
         then configuration ++
                [''statistics.interval.ms'' \<mapsto> IntV (stats_collection_frequency_ms env self),
                 ''stats_cb'' \<mapsto> stats_cb_value (self_stats_callback self)]
         else configuration)"
  by (simp add: build_consumer_def Let_def case_prod_beta new_KafkaConsumer_def int_truthy_def)

text \<open>
  C7. The statistics interval is the runtime setting keyed by the group id, else the
  global setting, else 0. The configuration of the consumer client is the one built
  from the builder's parameters, with the two entries \<open>statistics.interval.ms\<close> (the
  interval) and \<open>stats_cb\<close> (the callback) written over it when the interval is
  positive, and exactly the one built, with no entry added, when it is not.
\<close>

theorem statistics_keys_iff_positive_interval:
  "let configuration =
         build_kafka_consumer_configuration env
           (topic (get_default_topic_spec
              (get_stream_loader (get_table_writer (self_storage self)))))
           (self_bootstrap_servers self) (self_group_id self) slice_id
           (self_auto_offset_reset self) (self_strict_offset_reset self)
           (self_queued_max_messages_kbytes self) (self_queued_min_messages self);
       interval =
         (case runtime_config env (''stats_collection_freq_ms_'' @ self_group_id self) of
            Some v \<Rightarrow> v
          | None \<Rightarrow>
              (case runtime_config env ''stats_collection_freq_ms'' of
                 Some v \<Rightarrow> v
               | None \<Rightarrow> 0))
   in consumer_configuration
        (sp_consumer (fst (build_base_consumer env process_message self slice_id w))) =
      (if 0 < interval
       then configuration ++
              [''statistics.interval.ms'' \<mapsto> IntV interval,
               ''stats_cb'' \<mapsto> stats_cb_value (self_stats_callback self)]
       else configuration)"
  by (simp add: build_base_consumer_def configuration_of_build_consumer Let_def
      stats_collection_frequency_ms_def get_config_def split: option.splits)

subsection \<open>The message transform\<close>

text \<open>
  C8. On a slice that passes validation the builder is constructed, and in every consumer
  built from it, for every message, the transform of the pipeline description is
  \<^verbatim>\<open>process_message\<close> applied to four values fixed by the constructor's arguments
  (the processor of the dataset, the group id, the logical default topic and the
  schema-validation flag, which is off when the caller leaves it out) and the message.
\<close>

theorem process_message_bound_at_build:
  assumes "validate_passed_slice env (get_storage_set_key (get_writable_storage env storage_key))
             slice_id = Inr ()"
  shows "let stream_loader =
               get_stream_loader (get_table_writer (get_writable_storage env storage_key))
         in \<exists>self w.
              ConsumerBuilder_init env storage_key kafka_params processing_params max_batch_size
                max_batch_time_ms metrics slice_id stats_callback commit_retry_policy
                validate_schema profile_path w0 = (Inr self, w) \<and>
              (\<forall>build_slice_id w1 message.
                 sf_process_message
                   (strategy_args (sp_processor_factory
                      (fst (build_base_consumer env process_message self build_slice_id w1))))
                   message =
                 process_message (get_processor stream_loader) (group_id kafka_params)
                   (topic (get_default_topic_spec stream_loader))
                   (case validate_schema of None \<Rightarrow> False | Some v \<Rightarrow> v) message)"
proof -
  obtain self w where ok:
    "ConsumerBuilder_init env storage_key kafka_params processing_params max_batch_size
       max_batch_time_ms metrics slice_id stats_callback commit_retry_policy validate_schema
       profile_path w0 = (Inr self, w)"
    using init_valid [OF assms] by blast
  have "\<forall>build_slice_id w1 message.
          sf_process_message
            (strategy_args (sp_processor_factory
               (fst (build_base_consumer env process_message self build_slice_id w1))))
            message =
          process_message
            (get_processor
               (get_stream_loader (get_table_writer (get_writable_storage env storage_key))))
            (group_id kafka_params)
            (topic (get_default_topic_spec
               (get_stream_loader (get_table_writer (get_writable_storage env storage_key)))))
            (case validate_schema of None \<Rightarrow> False | Some v \<Rightarrow> v) message"
    by (simp add: factory_of_build_base_consumer strategy_args_build partial4_def
        init_fields(1,2,4) [OF ok])
  with ok show ?thesis unfolding Let_def by blast
qed

text \<open>
  With a \<^verbatim>\<open>process_message\<close> that returns its five arguments, and no flag given.
\<close>

theorem process_message_bound_at_build_witness:
  "\<exists>self w. example_init ''errors'' (Some 2) None None = (Inr self, w) \<and>
     sf_process_message
       (strategy_args (sp_processor_factory
          (fst (build_base_consumer example_env (\<lambda>p g t v m. (p, g, t, v, m)) self None
             example_world))))
       ''payload'' =
     (''ErrorsProcessor'', ''ingest-group'', ''events'', False, ''payload'')"
proof -
  have valid:
    "validate_passed_slice example_env
       (get_storage_set_key (get_writable_storage example_env ''errors'')) (Some 2) = Inr ()"
    by (simp add: example_defs validate_passed_slice_def)
  obtain self w where ok: "example_init ''errors'' (Some 2) None None = (Inr self, w)"
    and bound: "\<And>build_slice_id w1 message.
      sf_process_message
        (strategy_args (sp_processor_factory
           (fst (build_base_consumer example_env (\<lambda>p g t v m. (p, g, t, v, m)) self
              build_slice_id w1))))
        (message :: string) =
      (get_processor
         (get_stream_loader (get_table_writer (get_writable_storage example_env ''errors''))),
       group_id example_kafka_params,
       topic (get_default_topic_spec
         (get_stream_loader (get_table_writer (get_writable_storage example_env ''errors'')))),
       case None of None \<Rightarrow> False | Some v \<Rightarrow> v, message)"
    using process_message_bound_at_build [OF valid, of example_kafka_params
      example_processing_params 1000 2000 "''metrics-backend''" None None None None example_world
      "\<lambda>p g t v m. (p, g, t, v, m)"]
    unfolding Let_def example_init_def by blast
  have "sf_process_message
       (strategy_args (sp_processor_factory
          (fst (build_base_consumer example_env (\<lambda>p g t v m. (p, g, t, v, m)) self None
             example_world))))
       ''payload'' =
     (''ErrorsProcessor'', ''ingest-group'', ''events'', False, ''payload'')"
    unfolding bound by (simp add: example_defs)
  with ok show ?thesis by blast
qed

subsection \<open>The two slice ids\<close>

lemma topic_of_build_base_consumer:
  "sp_topic (fst (build_base_consumer env process_message self slice_id w)) = self_raw_topic self"
  by (simp add: build_base_consumer_def build_consumer_def Let_def case_prod_beta)

lemma consumer_of_build_base_consumer:
  "sp_consumer (fst (build_base_consumer env process_message self slice_id w)) =
     sp_consumer (fst (build_consumer env self
       (build_streaming_strategy_factory process_message self slice_id) slice_id w))"
  by (simp add: build_base_consumer_def)

text \<open>
  C9. On a slice that passes validation the builder is constructed, and for every slice
  id then given to \<^verbatim>\<open>build_base_consumer\<close>: the topic the consumer reads, and the
  replacement and commit-log topics of the collector, are the ones resolved under the
  slice id of the constructor; the slice id of the collector is the one of
  \<^verbatim>\<open>build_base_consumer\<close>, and the consumer configuration is built for that one
  too. The two slice ids are independent arguments.
\<close>

theorem constructor_slice_and_build_slice:
  assumes "validate_passed_slice env (get_storage_set_key (get_writable_storage env storage_key))
             slice_id = Inr ()"
  shows "let stream_loader =
               get_stream_loader (get_table_writer (get_writable_storage env storage_key));
             interval =
               get_config env (''stats_collection_freq_ms_'' @ group_id kafka_params)
                 (get_config env ''stats_collection_freq_ms'' 0)
         in \<exists>self w.
              ConsumerBuilder_init env storage_key kafka_params processing_params max_batch_size
                max_batch_time_ms metrics slice_id stats_callback commit_retry_policy
                validate_schema profile_path w0 = (Inr self, w) \<and>
              (\<forall>build_slice_id w1.
                 let stream_processor =
                       fst (build_base_consumer env process_message self build_slice_id w1);
                     configuration =
                       build_kafka_consumer_configuration env
                         (topic (get_default_topic_spec stream_loader))
                         (bootstrap_servers kafka_params) (group_id kafka_params) build_slice_id
                         (auto_offset_reset kafka_params) (strict_offset_reset kafka_params)
                         (queued_max_messages_kbytes kafka_params)
                         (queued_min_messages kafka_params)
                 in Some (sp_topic stream_processor) =
                      override_else_derived_else_absent (raw_topic kafka_params)
                        (Some (get_default_topic_spec stream_loader)) slice_id \<and>
                    bw_replacements_topic
                        (sf_collector (strategy_args (sp_processor_factory stream_processor))) =
                      override_else_derived_else_absent (replacements_topic kafka_params)
                        (get_replacement_topic_spec stream_loader) slice_id \<and>
                    map_option clc_topic (bw_commit_log_config
                        (sf_collector (strategy_args (sp_processor_factory stream_processor)))) =
                      override_else_derived_else_absent (commit_log_topic kafka_params)
                        (get_commit_log_topic_spec stream_loader) slice_id \<and>
                    bw_slice_id
                        (sf_collector (strategy_args (sp_processor_factory stream_processor))) =
                      build_slice_id \<and>
                    consumer_configuration (sp_consumer stream_processor) =
                      (if 0 < interval
                       then configuration ++
                              [''statistics.interval.ms'' \<mapsto> IntV interval,
                               ''stats_cb'' \<mapsto> stats_cb_value stats_callback]
                       else configuration))"
proof -
  obtain self w where ok:
    "ConsumerBuilder_init env storage_key kafka_params processing_params max_batch_size
       max_batch_time_ms metrics slice_id stats_callback commit_retry_policy validate_schema
       profile_path w0 = (Inr self, w)"
    using init_valid [OF assms] by blast
  show ?thesis
    unfolding Let_def
    by (rule exI [of _ self], rule exI [of _ w])
      (simp add: ok factory_of_build_base_consumer strategy_args_build
        topic_of_build_base_consumer consumer_of_build_base_consumer
        configuration_of_build_consumer stats_collection_frequency_ms_def init_fields [OF ok]
        init_topics [OF ok, symmetric]
        option.map_comp comp_def option.map_ident Let_def)
qed

text \<open>
  Constructed for slice 2 and built with no slice id: the consumer reads the topic of
  slice 2, while the collector has no slice id and the consumer configuration is the
  one of the unsliced cluster.
\<close>

theorem constructor_slice_and_build_slice_witness:
  "\<exists>self w. example_init ''errors'' (Some 2) None None = (Inr self, w) \<and>
     sp_topic (fst (build_base_consumer example_env (\<lambda>p g t v m. m :: string) self None example_world)) =
       Topic ''events-2'' \<and>
     bw_replacements_topic (sf_collector (strategy_args (sp_processor_factory
         (fst (build_base_consumer example_env (\<lambda>p g t v m. m :: string) self None example_world))))) =
       Some (Topic ''event-replacements-2'') \<and>
     bw_slice_id (sf_collector (strategy_args (sp_processor_factory
         (fst (build_base_consumer example_env (\<lambda>p g t v m. m :: string) self None example_world))))) =
       None \<and>
     consumer_configuration
         (sp_consumer (fst (build_base_consumer example_env (\<lambda>p g t v m. m :: string) self None
            example_world))) ''bootstrap.servers'' =
       Some (StrV ''kafka:9092'')"
proof -
  have valid:
    "validate_passed_slice example_env
       (get_storage_set_key (get_writable_storage example_env ''errors'')) (Some 2) = Inr ()"
    by (simp add: example_defs validate_passed_slice_def)
  show ?thesis
    using constructor_slice_and_build_slice [OF valid, of example_kafka_params
      example_processing_params 1000 2000 "''metrics-backend''" None None None None example_world
      "\<lambda>p g t v m. m :: string", unfolded Let_def, folded example_init_def]
    apply (elim exE conjE)
    subgoal for self w
      apply (drule spec [of _ None], drule spec [of _ example_world])
      apply (rule exI [of _ self], rule exI [of _ w])
      apply (simp add: example_defs override_else_derived_else_absent_def get_config_def)
      done
    done
qed

subsection \<open>The producer client\<close>

text \<open>
  C10. On a slice that passes validation the constructor allocates exactly one producer
  client, from the producer configuration, whatever topics resolved: the handle counter
  goes up by one and the trace gains one producer call. In every pipeline description
  built from the builder, the replacement producer of the collector (bound when there is
  a replacement topic) and the producer of the commit-log configuration (bound when
  there is a commit-log topic) are this one producer.
\<close>

theorem producer_allocated_once_and_shared:
  assumes "validate_passed_slice env (get_storage_set_key (get_writable_storage env storage_key))
             slice_id = Inr ()"
  shows "\<exists>self w.
           ConsumerBuilder_init env storage_key kafka_params processing_params max_batch_size
             max_batch_time_ms metrics slice_id stats_callback commit_retry_policy
             validate_schema profile_path w0 = (Inr self, w) \<and>
           self_producer self = Producer (next_handle w0) (self_producer_broker_config self) \<and>
           next_handle w = Suc (next_handle w0) \<and>
           filter is_Producer_call (calls w) =
             filter is_Producer_call (calls w0) @ [Call_Producer (next_handle w0)] \<and>
           (\<forall>build_slice_id w1.
              let collector =
                    sf_collector (strategy_args (sp_processor_factory
                      (fst (build_base_consumer env process_message self build_slice_id w1))))
              in bw_replacements_producer collector =
                   (if self_replacements_topic self = None then None
                    else Some (self_producer self)) \<and>
                 map_option clc_producer (bw_commit_log_config collector) =
                   (if self_commit_log_topic self = None then None
                    else Some (self_producer self)))"
proof -
  obtain self w where ok:
    "ConsumerBuilder_init env storage_key kafka_params processing_params max_batch_size
       max_batch_time_ms metrics slice_id stats_callback commit_retry_policy validate_schema
       profile_path w0 = (Inr self, w)"
    using init_valid [OF assms] by blast
  have shared: "\<forall>build_slice_id w1.
              let collector =
                    sf_collector (strategy_args (sp_processor_factory
                      (fst (build_base_consumer env process_message self build_slice_id w1))))
              in bw_replacements_producer collector =
                   (if self_replacements_topic self = None then None
                    else Some (self_producer self)) \<and>
                 map_option clc_producer (bw_commit_log_config collector) =
                   (if self_commit_log_topic self = None then None
                    else Some (self_producer self))"
    by (cases "self_commit_log_topic self")
      (simp_all add: factory_of_build_base_consumer strategy_args_build Let_def)
  show ?thesis
    using ok init_producer_config(2-4) [OF ok] shared by blast
qed

text \<open>
  On the storage with the default topic only and no override, no secondary topic
  resolves and nothing is bound, and still producer 0 is allocated. On the storage with
  both secondary topics, both bindings are producer 0.
\<close>

theorem producer_allocated_once_and_shared_witness:
  "(\<exists>self w.
      ConsumerBuilder_init example_env ''metrics'' example_plain_kafka_params
        example_processing_params 1000 2000 ''metrics-backend'' None None None None None
        example_world = (Inr self, w) \<and>
      self_replacements_topic self = None \<and> self_commit_log_topic self = None \<and>
      producer_handle (self_producer self) = 0 \<and> next_handle w = 1 \<and>
      filter is_Producer_call (calls w) = [Call_Producer 0] \<and>
      bw_replacements_producer (sf_collector (strategy_args (sp_processor_factory
        (fst (build_base_consumer example_env (\<lambda>p g t v m. m :: string) self None
           example_world))))) = None \<and>
      bw_commit_log_config (sf_collector (strategy_args (sp_processor_factory
        (fst (build_base_consumer example_env (\<lambda>p g t v m. m :: string) self None
           example_world))))) = None) \<and>
   (\<exists>self w.
      example_init ''errors'' (Some 2) None None = (Inr self, w) \<and>
      producer_handle (self_producer self) = 0 \<and>
      bw_replacements_producer (sf_collector (strategy_args (sp_processor_factory
        (fst (build_base_consumer example_env (\<lambda>p g t v m. m :: string) self None
           example_world))))) = Some (self_producer self) \<and>
      map_option clc_producer (bw_commit_log_config (sf_collector (strategy_args
        (sp_processor_factory
           (fst (build_base_consumer example_env (\<lambda>p g t v m. m :: string) self None
              example_world)))))) = Some (self_producer self))"
proof -
  have valid_metrics:
    "validate_passed_slice example_env
       (get_storage_set_key (get_writable_storage example_env ''metrics'')) None = Inr ()"
    by (simp add: validate_passed_slice_def)
  have valid_errors:
    "validate_passed_slice example_env
       (get_storage_set_key (get_writable_storage example_env ''errors'')) (Some 2) = Inr ()"
    by (simp add: example_defs validate_passed_slice_def)
  have plain: "\<exists>self w.
      ConsumerBuilder_init example_env ''metrics'' example_plain_kafka_params
        example_processing_params 1000 2000 ''metrics-backend'' None None None None None
        example_world = (Inr self, w) \<and>
      self_replacements_topic self = None \<and> self_commit_log_topic self = None \<and>
      producer_handle (self_producer self) = 0 \<and> next_handle w = 1 \<and>
      filter is_Producer_call (calls w) = [Call_Producer 0] \<and>
      bw_replacements_producer (sf_collector (strategy_args (sp_processor_factory
        (fst (build_base_consumer example_env (\<lambda>p g t v m. m :: string) self None
           example_world))))) = None \<and>
      bw_commit_log_config (sf_collector (strategy_args (sp_processor_factory
        (fst (build_base_consumer example_env (\<lambda>p g t v m. m :: string) self None
           example_world))))) = None"
    using producer_allocated_once_and_shared [OF valid_metrics, of example_plain_kafka_params
      example_processing_params 1000 2000 "''metrics-backend''" None None None None example_world
      "\<lambda>p g t v m. m :: string", unfolded Let_def]
    apply (elim exE conjE)
    subgoal for self w
      apply (drule spec [of _ None], drule spec [of _ example_world])
      apply (rule exI [of _ self], rule exI [of _ w])
      apply (frule init_topics(2))
      apply (frule init_topics(3))
      apply (simp add: example_defs override_else_derived_else_absent_def)
      done
    done
  have both: "\<exists>self w.
      example_init ''errors'' (Some 2) None None = (Inr self, w) \<and>
      producer_handle (self_producer self) = 0 \<and>
      bw_replacements_producer (sf_collector (strategy_args (sp_processor_factory
        (fst (build_base_consumer example_env (\<lambda>p g t v m. m :: string) self None
           example_world))))) = Some (self_producer self) \<and>
      map_option clc_producer (bw_commit_log_config (sf_collector (strategy_args
        (sp_processor_factory
           (fst (build_base_consumer example_env (\<lambda>p g t v m. m :: string) self None
              example_world)))))) = Some (self_producer self)"
    using producer_allocated_once_and_shared [OF valid_errors, of example_kafka_params
      example_processing_params 1000 2000 "''metrics-backend''" None None None None example_world
      "\<lambda>p g t v m. m :: string", unfolded Let_def]
    apply (elim exE conjE)
    subgoal for self w
      apply (drule spec [of _ None], drule spec [of _ example_world])
      apply (rule exI [of _ self], rule exI [of _ w])
      apply (frule init_topics(2))
      apply (frule init_topics(3))
      apply (simp add: example_defs override_else_derived_else_absent_def)
      done
    done
  from plain both show ?thesis by blast
qed

subsection \<open>The batching thresholds\<close>

lemma bit_length_nonneg: "0 \<le> bit_length n"
proof (induction n rule: bit_length.induct)
  case (1 n)
  then show ?case
    by (cases "n \<le> 0") (simp_all add: bit_length.simps [of n])
qed

lemma bit_length_pos: "0 < n \<Longrightarrow> 1 \<le> bit_length n"
  using bit_length_nonneg [of "n div 2"] by (simp add: bit_length.simps [of n])

lemma bit_length_bounds:
  "0 < n \<Longrightarrow> 2 ^ nat (bit_length n - 1) \<le> n \<and> n < 2 ^ nat (bit_length n)"
proof (induction n rule: bit_length.induct)
  case (1 n)
  show ?case
  proof (cases "0 < n div 2")
    case False
    with "1.prems" have "n = 1" by linarith
    then show ?thesis
      by (simp add: bit_length.simps [of 1] bit_length.simps [of 0])
  next
    case True
    with "1.IH" "1.prems"
    have ih: "2 ^ nat (bit_length (n div 2) - 1) \<le> n div 2"
      "n div 2 < 2 ^ nat (bit_length (n div 2))"
      by simp_all
    have len: "bit_length n = 1 + bit_length (n div 2)"
      using "1.prems" by (simp add: bit_length.simps [of n])
    have pos: "1 \<le> bit_length (n div 2)"
      using True by (rule bit_length_pos)
    have "nat (bit_length n - 1) = Suc (nat (bit_length (n div 2) - 1))"
      using len pos by simp
    moreover have "nat (bit_length n) = Suc (nat (bit_length (n div 2)))"
      using len pos by simp
    ultimately show ?thesis
      using ih by simp linarith
  qed
qed

lemma round_half_even_of_int: "round_half_even (of_int m) = m"
  by (simp add: round_half_even_def)

lemma ilog2_of_int:
  assumes "1 \<le> a"
  shows "ilog2 (of_int a) = bit_length a - 1"
  using assms by (simp add: ilog2_def)

lemma round_double_of_int:
  assumes "\<bar>k\<bar> \<le> 2 ^ 53"
  shows "round_double (of_int k) = of_int k"
proof (cases "k = 0")
  case True
  then show ?thesis by (simp add: round_double_def)
next
  case False
  define a where "a = \<bar>k\<bar>"
  define e where "e = bit_length a - 1"
  have a: "1 \<le> a" "a \<le> 2 ^ 53" using False assms by (simp_all add: a_def)
  have bounds: "2 ^ nat e \<le> a" "a < 2 ^ nat (bit_length a)" "0 \<le> e"
    using bit_length_bounds [of a] bit_length_pos [of a] a by (simp_all add: e_def)
  have "(2::int) ^ nat e \<le> 2 ^ 53" using bounds(1) a(2) by linarith
  then have e53: "nat e \<le> 53"
    by (rule power_le_imp_le_exp [rotated]) simp
  have q: "double_quantum (of_int k) = pow2 (e - 52)"
    using a bounds(3)
    by (simp add: double_quantum_def a_def [symmetric] e_def [symmetric] ilog2_of_int
        flip: of_int_abs)
  show ?thesis
  proof (cases "e \<le> 52")
    case True
    define d where "d = nat (52 - e)"
    have qd: "pow2 (e - 52) = 1 / 2 ^ d"
      using True by (cases "e = 52") (simp_all add: pow2_def d_def)
    have "of_int k / pow2 (e - 52) = (of_int (k * 2 ^ d) :: rat)"
      by (simp add: qd)
    then have "round_half_even (of_int k / pow2 (e - 52)) = k * 2 ^ d"
      by (simp only: round_half_even_of_int)
    then show ?thesis
      using False by (simp add: round_double_def q qd)
  next
    case False
    with e53 bounds(3) have e: "e = 53" by linarith
    with bounds(1) a(2) have "a = 2 ^ 53" by simp
    then have k: "k = 2 ^ 53 \<or> k = - (2 ^ 53)" by (auto simp: a_def abs_if split: if_splits)
    have "of_int k / pow2 (e - 52) = (of_int (k div 2) :: rat)"
      using k by (auto simp: e pow2_def)
    then have "round_half_even (of_int k / pow2 (e - 52)) = k div 2"
      by (simp only: round_half_even_of_int)
    then show ?thesis
      using k \<open>k \<noteq> 0\<close> by (auto simp: round_double_def q e pow2_def)
  qed
qed

lemma round_half_even_error: "\<bar>of_int (round_half_even y) - y\<bar> \<le> 1 / 2"
proof -
  define r where "r = y - of_int \<lfloor>y\<rfloor>"
  have r: "0 \<le> r" "r < 1" unfolding r_def by linarith+
  have rhe: "round_half_even y =
      (if r < 1 / 2 then \<lfloor>y\<rfloor> else if 1 / 2 < r then \<lfloor>y\<rfloor> + 1
       else if even \<lfloor>y\<rfloor> then \<lfloor>y\<rfloor> else \<lfloor>y\<rfloor> + 1)"
    unfolding round_half_even_def Let_def r_def by (rule refl)
  have down: "of_int \<lfloor>y\<rfloor> - y = - r" and up: "of_int (\<lfloor>y\<rfloor> + 1) - y = 1 - r"
    by (simp_all add: r_def)
  consider "r < 1 / 2" | "1 / 2 < r" | "r = 1 / 2" by linarith
  then show ?thesis
  proof cases
    case 1
    then have "round_half_even y = \<lfloor>y\<rfloor>" by (simp add: rhe)
    then have "\<bar>of_int (round_half_even y) - y\<bar> = \<bar>- r\<bar>" by (simp only: down)
    then show ?thesis using 1 r by linarith
  next
    case 2
    then have "round_half_even y = \<lfloor>y\<rfloor> + 1" by (simp add: rhe)
    then have "\<bar>of_int (round_half_even y) - y\<bar> = \<bar>1 - r\<bar>" by (simp only: up)
    then show ?thesis using 2 r by linarith
  next
    case 3
    then have "round_half_even y = \<lfloor>y\<rfloor> \<or> round_half_even y = \<lfloor>y\<rfloor> + 1"
      by (simp add: rhe)
    then show ?thesis
    proof
      assume "round_half_even y = \<lfloor>y\<rfloor>"
      then have "\<bar>of_int (round_half_even y) - y\<bar> = \<bar>- r\<bar>" by (simp only: down)
      then show ?thesis using 3 by linarith
    next
      assume "round_half_even y = \<lfloor>y\<rfloor> + 1"
      then have "\<bar>of_int (round_half_even y) - y\<bar> = \<bar>1 - r\<bar>" by (simp only: up)
      then show ?thesis using 3 by linarith
    qed
  qed
qed

lemma pow2_eq_powi: "pow2 k = 2 powi k"
proof (cases "0 \<le> k")
  case True
  then show ?thesis by (simp add: pow2_def power_int_def)
next
  case False
  then show ?thesis
    by (simp add: pow2_def power_int_def power_one_over inverse_eq_divide)
qed

lemma pow2_pos: "0 < pow2 k"
  by (simp add: pow2_def)

lemma pow2_ilog2_le:
  assumes "0 < x"
  shows "pow2 (ilog2 x) \<le> x"
proof (cases "1 \<le> x")
  case True
  then have fl: "0 < \<lfloor>x\<rfloor>" by simp
  have "pow2 (ilog2 x) = of_int (2 ^ nat (bit_length \<lfloor>x\<rfloor> - 1))"
    using True bit_length_pos [OF fl] by (simp add: ilog2_def pow2_def)
  also have "\<dots> \<le> of_int \<lfloor>x\<rfloor>"
    using bit_length_bounds [OF fl] by (simp only: of_int_le_iff)
  also have "\<dots> \<le> x" by simp
  finally show ?thesis .
next
  case False
  define m where "m = \<lceil>1 / x\<rceil>"
  define b where "b = bit_length (m - 1)"
  have "1 < 1 / x" using False assms by simp
  then have m2: "0 < m - 1" unfolding m_def by linarith
  have b1: "1 \<le> b" unfolding b_def using m2 by (rule bit_length_pos)
  have "m - 1 < 2 ^ nat b" using bit_length_bounds [OF m2] by (simp add: b_def)
  then have "m \<le> 2 ^ nat b" by simp
  then have "(of_int m :: rat) \<le> of_int (2 ^ nat b)" by (simp only: of_int_le_iff)
  moreover have "1 / x \<le> of_int m" unfolding m_def by simp
  ultimately have "1 / x \<le> of_int (2 ^ nat b)" by (rule order_trans [rotated])
  then have "1 / x \<le> 2 ^ nat b" by simp
  then have "1 / 2 ^ nat b \<le> x"
    using assms by (simp add: field_simps)
  moreover have "pow2 (ilog2 x) = 1 / 2 ^ nat b"
    using False b1 by (simp add: ilog2_def pow2_def m_def b_def)
  ultimately show ?thesis by simp
qed

lemma ilog2_ge:
  assumes "1 / 1000 \<le> x"
  shows "- 10 \<le> ilog2 x"
proof (cases "1 \<le> x")
  case True
  then have "0 < \<lfloor>x\<rfloor>" by simp
  then show ?thesis
    using True bit_length_pos [of "\<lfloor>x\<rfloor>"] by (simp add: ilog2_def)
next
  case False
  define m where "m = \<lceil>1 / x\<rceil>"
  define b where "b = bit_length (m - 1)"
  have x: "0 < x" using assms by simp
  have "1 < 1 / x" using False x by simp
  then have m2: "0 < m - 1" unfolding m_def by linarith
  have "1 / x \<le> 1000" using assms x by (simp add: field_simps)
  then have "m \<le> 1000" unfolding m_def by (simp add: ceiling_le_iff)
  moreover have "2 ^ nat (b - 1) \<le> m - 1"
    using bit_length_bounds [OF m2] by (simp add: b_def)
  ultimately have "(2::int) ^ nat (b - 1) < 2 ^ 10" by simp
  then have "nat (b - 1) < 10"
    by (rule power_less_imp_less_exp [rotated]) simp
  then have "b \<le> 10" by simp
  then show ?thesis
    using False by (simp add: ilog2_def m_def b_def)
qed

lemma round_double_error:
  assumes "1 / 1000 \<le> \<bar>x\<bar>"
  shows "\<bar>round_double x - x\<bar> \<le> \<bar>x\<bar> / 2 ^ 53"
proof -
  define e where "e = ilog2 \<bar>x\<bar>"
  define q where "q = pow2 (e - 52)"
  have x: "x \<noteq> 0" "0 < \<bar>x\<bar>" using assms by auto
  have e: "- 10 \<le> e" unfolding e_def using assms by (rule ilog2_ge)
  have dq: "double_quantum x = q"
    using e by (simp add: double_quantum_def e_def [symmetric] q_def)
  have qpos: "0 < q" unfolding q_def by (rule pow2_pos)
  have "pow2 e \<le> \<bar>x\<bar>" unfolding e_def using x(2) by (rule pow2_ilog2_le)
  moreover have "pow2 e = q * 2 ^ 52"
    by (simp add: q_def pow2_eq_powi power_int_diff)
  ultimately have qx: "q * 2 ^ 52 \<le> \<bar>x\<bar>" by simp
  have "round_double x - x = (of_int (round_half_even (x / q)) - x / q) * q"
    using x(1) qpos by (simp add: round_double_def dq field_simps)
  then have "\<bar>round_double x - x\<bar> = \<bar>of_int (round_half_even (x / q)) - x / q\<bar> * q"
    using qpos by (simp add: abs_mult)
  also have "\<dots> \<le> (1 / 2) * q"
    using round_half_even_error [of "x / q"] qpos by (intro mult_right_mono) simp_all
  also have "\<dots> \<le> \<bar>x\<bar> / 2 ^ 53"
    using qx by simp
  finally show ?thesis .
qed

lemma float_overflow_threshold_gt: "2 ^ 53 < float_overflow_threshold"
  by (simp add: float_overflow_threshold_def)

lemma float_of_int_exact:
  assumes "\<bar>n\<bar> \<le> 2 ^ 53"
  shows "float_of_int n = Inr (of_int n)"
  using assms float_overflow_threshold_gt
  by (simp add: float_of_int_def round_double_of_int)

lemma float_value_TrueDiv:
  "float_value (TrueDiv n 1000) =
     (if float_overflow_threshold \<le> \<bar>n\<bar> then Inl OverflowError
      else Inr (round_double (round_double (of_int n) / 1000)))"
  by (simp add: float_value_def float_of_int_def)

lemma float_value_small:
  assumes "\<bar>n\<bar> \<le> 2 ^ 53"
  shows "float_value (TrueDiv n 1000) = Inr (round_double (of_int n / 1000))"
  using assms by (simp add: float_value_def float_of_int_exact)

lemma float_value_whole_seconds:
  assumes "\<bar>n\<bar> \<le> 2 ^ 53" and "1000 dvd n"
  shows "float_value (TrueDiv n 1000) = Inr (of_int n / 1000)"
proof -
  from assms(2) obtain k where k: "n = 1000 * k" ..
  with assms(1) have "\<bar>k\<bar> \<le> 2 ^ 53" by simp
  then have "round_double (of_int k) = of_int k" by (rule round_double_of_int)
  moreover have "(of_int n / 1000 :: rat) = of_int k" by (simp add: k)
  ultimately show ?thesis
    using float_value_small [OF assms(1)] by simp
qed

lemma quotient_error:
  "\<bar>round_double (of_int n / 1000) - of_int n / 1000\<bar> \<le> \<bar>of_int n / 1000\<bar> / 2 ^ 53"
proof (cases "n = 0")
  case True
  then show ?thesis by (simp add: round_double_def)
next
  case False
  then have "1 \<le> \<bar>n\<bar>" by simp
  then have "(1::rat) \<le> of_int \<bar>n\<bar>" by (simp only: of_int_1_le_iff)
  then have "1 / 1000 \<le> \<bar>of_int n / 1000 :: rat\<bar>" by simp
  then show ?thesis by (rule round_double_error)
qed

lemma init_batch_fields:
  assumes "ConsumerBuilder_init env storage_key kafka_params processing_params mbs mbt
            metrics slice_id cb policy vs prof w0 = (Inr self, w)"
  shows "self_max_batch_size self = mbs" and "self_max_batch_time_ms self = mbt"
  using assms
  by (auto simp: ConsumerBuilder_init_def Let_def case_prod_beta split: sum.splits)

lemma example_batch_time_eq: "example_batch_time ms = TrueDiv ms 1000"
  by (simp add: example_batch_time_def factory_of_build_base_consumer strategy_args_build
      ConsumerBuilder_init_def Let_def case_prod_beta validate_passed_slice_def example_env_def
      example_errors_storage_def)

lemma float_value_too_large: "float_value (TrueDiv (10 ^ 400) 1000) = Inl OverflowError"
  by (simp add: float_value_def float_of_int_def float_overflow_threshold_def)

lemma float_value_rounded_twice:
  "float_value (TrueDiv (2 ^ 53 + 1) 1000) = Inr (1152921504606847 / 128)"
  by code_simp

text \<open>
  C6, as the claim states it, fails for two values of \<open>max_batch_time_ms\<close>. For
  \<open>10\<^sup>4\<^sup>0\<^sup>0\<close> the division raises OverflowError and yields no bound. For
  \<open>2\<^sup>5\<^sup>3 + 1\<close> the bound is the float \<open>1152921504606847 / 128\<close>, which is not
  \<open>(2\<^sup>5\<^sup>3 + 1) / 1000\<close>.
\<close>

theorem batch_time_counterexample:
  "float_value (example_batch_time (10 ^ 400)) = Inl OverflowError \<and>
   float_value (example_batch_time (2 ^ 53 + 1)) = Inr (1152921504606847 / 128) \<and>
   (1152921504606847 / 128 :: rat) \<noteq> (2 ^ 53 + 1) / 1000"
  using float_value_too_large float_value_rounded_twice
  by (simp add: example_batch_time_eq)

text \<open>
  C6, amended. On a slice that passes validation the builder is constructed, and in every
  pipeline description built from it the maximum item count is \<open>max_batch_size\<close>
  unchanged and the time bound is the Python float \<^verbatim>\<open>max_batch_time_ms / 1000.0\<close>:
  \<^item> the integer is converted to the nearest float and the quotient by 1000 is rounded to
    the nearest float; from \<open>2\<^sup>1\<^sup>0\<^sup>2\<^sup>4 - 2\<^sup>9\<^sup>7\<^sup>0\<close> on, in absolute value, the conversion
    raises OverflowError;
  \<^item> up to \<open>2\<^sup>5\<^sup>3\<close> in absolute value the bound is \<open>max_batch_time_ms / 1000\<close> rounded
    to the nearest float, within a relative error of \<open>2\<^sup>-\<^sup>5\<^sup>3\<close> of it;
  \<^item> up to \<open>2\<^sup>5\<^sup>3\<close> in absolute value and for a multiple of 1000 the bound is
    \<open>max_batch_time_ms / 1000\<close> exactly.
\<close>

theorem batch_thresholds:
  assumes "validate_passed_slice env (get_storage_set_key (get_writable_storage env storage_key))
             slice_id = Inr ()"
  shows "\<exists>self w.
           ConsumerBuilder_init env storage_key kafka_params processing_params max_batch_size
             max_batch_time_ms metrics slice_id stats_callback commit_retry_policy
             validate_schema profile_path w0 = (Inr self, w) \<and>
           (\<forall>build_slice_id w1.
              let args =
                    strategy_args (sp_processor_factory
                      (fst (build_base_consumer env process_message self build_slice_id w1)))
              in sf_max_batch_size args = max_batch_size \<and>
                 sf_max_batch_time args = TrueDiv max_batch_time_ms 1000 \<and>
                 float_value (sf_max_batch_time args) =
                   (if float_overflow_threshold \<le> \<bar>max_batch_time_ms\<bar> then Inl OverflowError
                    else Inr (round_double
                           (round_double (of_int max_batch_time_ms) / 1000))) \<and>
                 (\<bar>max_batch_time_ms\<bar> \<le> 2 ^ 53 \<longrightarrow>
                    float_value (sf_max_batch_time args) =
                      Inr (round_double (of_int max_batch_time_ms / 1000)) \<and>
                    \<bar>round_double (of_int max_batch_time_ms / 1000) -
                       of_int max_batch_time_ms / 1000\<bar> \<le>
                      \<bar>of_int max_batch_time_ms / 1000\<bar> / 2 ^ 53) \<and>
                 (\<bar>max_batch_time_ms\<bar> \<le> 2 ^ 53 \<and> 1000 dvd max_batch_time_ms \<longrightarrow>
                    float_value (sf_max_batch_time args) =
                      Inr (of_int max_batch_time_ms / 1000)))"
proof -
  obtain self w where ok:
    "ConsumerBuilder_init env storage_key kafka_params processing_params max_batch_size
       max_batch_time_ms metrics slice_id stats_callback commit_retry_policy validate_schema
       profile_path w0 = (Inr self, w)"
    using init_valid [OF assms] by blast
  have size: "sf_max_batch_size (strategy_args (sp_processor_factory
      (fst (build_base_consumer env process_message self build_slice_id w1)))) = max_batch_size"
    and time: "sf_max_batch_time (strategy_args (sp_processor_factory
      (fst (build_base_consumer env process_message self build_slice_id w1)))) =
      TrueDiv max_batch_time_ms 1000"
    for build_slice_id w1
    by (simp_all add: factory_of_build_base_consumer strategy_args_build
        init_batch_fields [OF ok])
  show ?thesis
    apply (rule exI [of _ self], rule exI [of _ w])
    unfolding Let_def size time
    using ok float_value_TrueDiv [of max_batch_time_ms] float_value_small [of max_batch_time_ms]
      float_value_whole_seconds [of max_batch_time_ms] quotient_error [of max_batch_time_ms]
    by blast
qed

text \<open>A batch of at most 1000 items and 2000 milliseconds: the bound is 2 seconds.\<close>

theorem batch_thresholds_witness:
  "\<exists>self w. example_init ''errors'' (Some 2) None None = (Inr self, w) \<and>
     sf_max_batch_size (strategy_args (sp_processor_factory
       (fst (build_base_consumer example_env (\<lambda>p g t v m. m :: string) self None
          example_world)))) = 1000 \<and>
     float_value (sf_max_batch_time (strategy_args (sp_processor_factory
       (fst (build_base_consumer example_env (\<lambda>p g t v m. m :: string) self None
          example_world))))) = Inr 2"
proof -
  have valid:
    "validate_passed_slice example_env
       (get_storage_set_key (get_writable_storage example_env ''errors'')) (Some 2) = Inr ()"
    by (simp add: example_defs validate_passed_slice_def)
  show ?thesis
    using batch_thresholds [OF valid, of example_kafka_params example_processing_params 1000
      2000 "''metrics-backend''" None None None None example_world
      "\<lambda>p g t v m. m :: string", unfolded Let_def, folded example_init_def]
    apply (elim exE conjE)
    subgoal for self w
      apply (drule spec [of _ None], drule spec [of _ example_world])
      apply (rule exI [of _ self], rule exI [of _ w])
      apply (elim conjE)
      apply simp
      done
    done
qed

end
